theory Spec2Isabelle
  imports Complex_Main "HOL-Library.Word"
begin

unbundle bit_operations_syntax

section \<open>Platform values\<close>

text \<open>
  The translator is a React component, \<open>App.tsx\<close>, kept in four revisions (three that
  talk to the Live API, one that uses the browser's speech recognition), and a small
  request/response service. This theory embeds the audio utilities \<open>encode\<close>,
  \<open>decode\<close> and \<open>decodeAudioData\<close>, the capture callback, \<open>translateText\<close>, and of
  the first Live revision the message handler, \<open>stopSession\<close> and \<open>startSession\<close>; of
  the third revision it embeds the turn-complete block, the only place where the two
  differ on what is proved here.

  A \<open>Uint8Array\<close> is the list of its bytes where the code reads its elements, and a
  window on a buffer where the code reads \<open>data.buffer\<close>; an \<open>Int16Array\<close> is a list of
  16-bit words. A number that holds a sample or a time is a \<open>real\<close>: what the code does to a sample (a
  product with \<open>32768\<close>, a truncation, a quotient by \<open>32768\<close>) is exact on the floats
  involved, and the scheduler only adds and compares times, which is monotone on floats as
  it is on reals. A binary string, whose code units are at most \<open>255\<close>, is a \<open>string\<close>: a
  \<open>char\<close> is one code unit. An exception is a value of \<open>js_error\<close>.
\<close>

type_synonym byte = "8 word"

type_synonym int16 = "16 word"

datatype js_error =
    TypeError | RangeError | InvalidCharacterError | NotSupportedError
  | NotAllowedError | NotFoundError | ConnectionError

section \<open>Base64 transport encoding\<close>

text \<open>
  \<open>btoa\<close> and \<open>atob\<close> are built into the browser; the repository only calls them. They
  are written out here after RFC 4648 (the encoder) and the forgiving-base64 decoder of
  the WHATWG Infra standard: strip ASCII whitespace, drop one or two trailing \<open>=\<close> when the
  length is a multiple of four, fail on a length that is one more than a multiple of four or
  on a character outside the alphabet, and discard the unused low bits of a final group.
  \<open>btoa\<close> throws on a code unit above \<open>255\<close>; \<open>string\<close> has none.
\<close>

definition b64_char :: "nat \<Rightarrow> char" where
  "b64_char n =
     (if n < 26 then char_of (65 + n)
      else if n < 52 then char_of (71 + n)
      else if n < 62 then char_of (n - 4)
      else if n = 62 then CHR ''+''
      else CHR ''/'')"

definition b64_value :: "char \<Rightarrow> nat option" where
  "b64_value c =
     (let k = (of_char c :: nat) in
      if 65 \<le> k \<and> k \<le> 90 then Some (k - 65)
      else if 97 \<le> k \<and> k \<le> 122 then Some (k - 71)
      else if 48 \<le> k \<and> k \<le> 57 then Some (k + 4)
      else if k = 43 then Some 62
      else if k = 47 then Some 63
      else None)"

fun sextets :: "nat list \<Rightarrow> nat list" where
  "sextets [] = []"
| "sextets [x] = [x div 4, x mod 4 * 16]"
| "sextets [x, y] = [x div 4, x mod 4 * 16 + y div 16, y mod 16 * 4]"
| "sextets (x # y # z # rest) =
     [x div 4, x mod 4 * 16 + y div 16, y mod 16 * 4 + z div 64, z mod 64] @ sextets rest"

definition btoa :: "string \<Rightarrow> string" where
  "btoa s = map b64_char (sextets (map of_char s))
            @ replicate ((3 - length s mod 3) mod 3) (CHR ''='')"

definition ascii_whitespace :: "char \<Rightarrow> bool" where
  "ascii_whitespace c = ((of_char c :: nat) \<in> {9, 10, 12, 13, 32})"

definition strip_padding :: "string \<Rightarrow> string" where
  "strip_padding d =
     (if length d mod 4 = 0 then
        (if 2 \<le> length d \<and> last d = CHR ''='' \<and> last (butlast d) = CHR ''=''
         then butlast (butlast d)
         else if 1 \<le> length d \<and> last d = CHR ''='' then butlast d
         else d)
      else d)"

fun sextets_to_bytes :: "nat list \<Rightarrow> nat list" where
  "sextets_to_bytes (p # q # r # s # rest) =
     [p * 4 + q div 16, q mod 16 * 16 + r div 4, r mod 4 * 64 + s] @ sextets_to_bytes rest"
| "sextets_to_bytes [p, q, r] = [p * 4 + q div 16, q mod 16 * 16 + r div 4]"
| "sextets_to_bytes [p, q] = [p * 4 + q div 16]"
| "sextets_to_bytes _ = []"

definition atob :: "string \<Rightarrow> string option" where
  "atob data =
     (let d = strip_padding (filter (\<lambda>c. \<not> ascii_whitespace c) data)
      in if length d mod 4 = 1 then None
         else (case those (map b64_value d) of
                 None \<Rightarrow> None
               | Some vs \<Rightarrow> Some (map char_of (sextets_to_bytes vs))))"

text \<open>
  \<^verbatim>\<open>function encode(bytes) { binary += String.fromCharCode(bytes[i]) ...; return btoa(binary) }\<close>
  and
  \<^verbatim>\<open>function decode(base64) { binaryString = atob(base64); bytes[i] = binaryString.charCodeAt(i) ... }\<close>.
  A failing \<open>atob\<close> throws, and \<open>decode\<close> does not catch it. A store into a \<open>Uint8Array\<close>
  keeps the value modulo \<open>256\<close>. \<open>encode\<close> reads the elements of its argument and nothing
  else of it; \<open>decode\<close> returns \<open>new Uint8Array(len)\<close>, an array over a buffer of its own,
  given here by its elements.
\<close>

definition encode :: "byte list \<Rightarrow> string" where
  "encode bytes = btoa (map (\<lambda>b. char_of (unat b)) bytes)"

definition decode :: "string \<Rightarrow> js_error + byte list" where
  "decode base64 =
     (case atob base64 of
        None \<Rightarrow> Inl InvalidCharacterError
      | Some binaryString \<Rightarrow> Inr (map (\<lambda>c. word_of_nat (of_char c)) binaryString))"

section \<open>PCM codec\<close>

text \<open>
  The capture callback stores \<open>inputData[i] * 32768\<close> into an \<open>Int16Array\<close>. The store
  converts as ECMAScript's ToInt16 does: truncate towards zero, then keep the low sixteen
  bits as a two's complement number. Nothing clamps.
\<close>

definition js_truncate :: "real \<Rightarrow> int" where
  "js_truncate x = (if 0 \<le> x then \<lfloor>x\<rfloor> else \<lceil>x\<rceil>)"

definition to_int16 :: "real \<Rightarrow> int16" where
  "to_int16 x = word_of_int (js_truncate x)"

text \<open>
  A \<open>Uint8Array\<close> is a window on an \<open>ArrayBuffer\<close>: the buffer (the property \<open>buffer\<close>,
  here \<open>arrayBuffer\<close>), where the window begins and how many bytes it holds. Where the
  code reads \<open>data.buffer\<close> it reads the whole buffer, whatever the window. \<open>fresh bytes\<close>
  is an array that covers a buffer of its own: what \<open>new Uint8Array(len)\<close> is once filled,
  and what \<open>new Uint8Array(int16.buffer)\<close> is.
\<close>

record uint8array =
  arrayBuffer :: "byte list"
  byteOffset :: nat
  byteLength :: nat

definition fresh :: "byte list \<Rightarrow> uint8array" where
  "fresh bytes = \<lparr>arrayBuffer = bytes, byteOffset = 0, byteLength = length bytes\<rparr>"

text \<open>
  \<open>new Uint8Array(int16.buffer)\<close> and \<open>new Int16Array(data.buffer)\<close> view the same
  memory; typed arrays use the byte order of the machine, little-endian on every platform
  a browser runs on. \<open>int16_at bytes k\<close> is element \<open>k\<close> of the sixteen-bit view of the
  buffer \<open>bytes\<close>.
\<close>

definition int16_bytes :: "int16 \<Rightarrow> byte list" where
  "int16_bytes w = [ucast w, ucast (drop_bit 8 w)]"

fun bytes_int16 :: "byte list \<Rightarrow> int16 list" where
  "bytes_int16 (lo # hi # rest) = (ucast lo OR push_bit 8 (ucast hi)) # bytes_int16 rest"
| "bytes_int16 _ = []"

definition int16_at :: "byte list \<Rightarrow> nat \<Rightarrow> int16" where
  "int16_at data k = (ucast (data ! (2 * k)) OR push_bit 8 (ucast (data ! (2 * k + 1))))"

text \<open>
  \<^verbatim>\<open>scriptProcessor.onaudioprocess\<close>, up to the string it hands to
  \<open>sendRealtimeInput\<close>:
  \<^verbatim>\<open>int16[i] = inputData[i] * 32768; pcmBase64 = encode(new Uint8Array(int16.buffer))\<close>.
\<close>

definition onaudioprocess :: "real list \<Rightarrow> string" where
  "onaudioprocess inputData =
     (let int16 = map (\<lambda>x. to_int16 (x * 32768)) inputData
      in encode (concat (map int16_bytes int16)))"

text \<open>
  An \<open>AudioBuffer\<close> holds one list of samples for each channel. \<open>createBuffer\<close> belongs
  to the Web Audio API: it throws \<open>NotSupportedError\<close> on a channel count, a length or a
  rate that is zero or outside the range the implementation supports. Every implementation
  supports up to 32 channels and rates from 8000 to 96000; outside that the model throws,
  and no theorem below rests on it.
\<close>

record audio_buffer =
  channelData :: "real list list"
  sampleRate :: nat

definition duration :: "audio_buffer \<Rightarrow> real" where
  "duration buffer =
     real (case channelData buffer of [] \<Rightarrow> 0 | c # _ \<Rightarrow> length c) / real (sampleRate buffer)"

definition createBuffer :: "nat \<Rightarrow> nat \<Rightarrow> nat \<Rightarrow> js_error + audio_buffer" where
  "createBuffer numberOfChannels len rate =
     (if numberOfChannels = 0 \<or> 32 < numberOfChannels \<or> len = 0 \<or> rate < 8000 \<or> 96000 < rate
      then Inl NotSupportedError
      else Inr \<lparr>channelData = replicate numberOfChannels (replicate len 0), sampleRate = rate\<rparr>)"

text \<open>
  \<^verbatim>\<open>async function decodeAudioData(data, ctx, sampleRate, numChannels)\<close>.
  \<open>new Int16Array(data.buffer)\<close> views the whole buffer under \<open>data\<close>, not the window
  \<open>data\<close> is; it throws \<open>RangeError\<close> on a buffer of odd length, and that is the only
  check of a length there is. \<open>frameCount\<close> is the quotient
  \<open>dataInt16.length / numChannels\<close>, which need not be whole; \<open>createBuffer\<close> takes an
  unsigned long and so drops the fraction, and the loop's one store past the end of
  \<open>channelData\<close> is ignored, as every store outside a typed array is. The context \<open>ctx\<close>
  only supplies \<open>createBuffer\<close>.
\<close>

definition decodeAudioData :: "uint8array \<Rightarrow> nat \<Rightarrow> nat \<Rightarrow> js_error + audio_buffer" where
  "decodeAudioData data rate numChannels =
     (if length (arrayBuffer data) mod 2 \<noteq> 0 then Inl RangeError
      else
        let dataInt16 = bytes_int16 (arrayBuffer data);
            frameCount = length dataInt16 div numChannels
        in case createBuffer numChannels frameCount rate of
             Inl e \<Rightarrow> Inl e
           | Inr buffer \<Rightarrow>
               Inr (buffer\<lparr>channelData :=
                 map (\<lambda>channel.
                        map (\<lambda>i. real_of_int (sint (dataInt16 ! (i * numChannels + channel))) / 32768)
                          [0..<frameCount])
                   [0..<numChannels]\<rparr>))"

section \<open>Request/response translation\<close>

text \<open>
  \<open>services/geminiService.ts\<close>. A text here is a list of UTF-16 code units, so that
  \<open>trim\<close> removes exactly what ECMAScript calls white space and line terminators. The
  backend, \<open>ai.models.generateContent\<close>, is a parameter: given the model name and the
  prompt it rejects, or responds with a \<open>text\<close> that may be undefined. The function is
  \<open>async\<close>: its result is the outcome of the promise, \<open>Inl\<close> a rejection.
  \<^verbatim>\<open>if (!text.trim()) return '';
  try { response = await ai.models.generateContent(...);
        return response.text?.trim() || 'Translation failed'; }
  catch (error) { return 'Error in translation service'; }\<close>
\<close>

type_synonym utf16 = "16 word list"

definition ascii :: "string \<Rightarrow> utf16" where
  "ascii s = map of_char s"

definition js_whitespace :: "16 word \<Rightarrow> bool" where
  "js_whitespace c =
     (c \<in> {9, 10, 11, 12, 13, 32, 160, 5760, 8232, 8233, 8239, 8287, 12288, 65279}
      \<or> (8192 \<le> c \<and> c \<le> 8202))"

definition trim :: "utf16 \<Rightarrow> utf16" where
  "trim s = rev (dropWhile js_whitespace (rev (dropWhile js_whitespace s)))"

datatype backend_outcome = Rejected | Response "utf16 option"

definition prompt :: "utf16 \<Rightarrow> utf16 \<Rightarrow> utf16" where
  "prompt targetLang text =
     ascii ''Translate the following text into '' @ targetLang
     @ ascii ''. Provide ONLY the translation without any preamble or quotes: \"''
     @ text @ ascii ''\"''"

definition translateText ::
  "(utf16 \<Rightarrow> utf16 \<Rightarrow> backend_outcome) \<Rightarrow> utf16 \<Rightarrow> utf16 \<Rightarrow> utf16 \<Rightarrow> js_error + utf16" where
  "translateText generateContent text targetLang modelName =
     (if trim text = [] then Inr []
      else (case generateContent modelName (prompt targetLang text) of
              Rejected \<Rightarrow> Inr (ascii ''Error in translation service'')
            | Response None \<Rightarrow> Inr (ascii ''Translation failed'')
            | Response (Some t) \<Rightarrow>
                if trim t = [] then Inr (ascii ''Translation failed'') else Inr (trim t)))"

section \<open>The component's state\<close>

text \<open>
  \<open>types.ts\<close> gives the enumerations. The status strings \<open>'Klar'\<close>, \<open>'Lytter...'\<close>,
  \<open>'Oversaetter...'\<close>, \<open>'Taler...'\<close> and \<open>'Error'\<close> are the constructors of \<open>app_status\<close>. A
  language label of a history item is \<open>'Auto'\<close> or an entry of \<open>LANGUAGE_NAMES\<close>; the
  entries are kept symbolic. A media stream, an audio context, a session and a buffer
  source node are objects of the platform, known here by a handle.
\<close>

datatype language = Danish | English | German | Turkish | Japanese

datatype source_language = Auto | Source language

datatype app_status = Klar | Lytter | Oversaetter | Taler | Error

datatype label = AutoLabel | LanguageName language

type_synonym handle = nat

record history_item =
  timestamp :: nat
  originalText :: string
  translatedText :: string
  sourceLangLabel :: label
  targetLangLabel :: label

text \<open>
  \<open>app\<close> holds what \<open>useState\<close> and \<open>useRef\<close> hold. A ref is read and written in
  place. A state variable is different: a callback reads the constant of the render that
  created the callback, and a setter changes what the next render will see. \<open>closure\<close>
  holds the constants a callback reads, and \<open>render s\<close> is the closure of a render in
  state \<open>s\<close>. The callbacks handed to \<open>ai.live.connect\<close> are created once, by the call of
  \<open>startSession\<close>; \<open>stopSession\<close> is re-created by \<open>useCallback\<close> when \<open>stream\<close> changes.
\<close>

record app =
  sourceLang :: source_language
  targetLang :: language
  status :: app_status
  isRecording :: bool
  transcript :: string
  translation :: string
  history :: "history_item list"
  stream :: "handle option"
  sessionRef :: "handle option"
  inputAudioContextRef :: "handle option"
  outputAudioContextRef :: "handle option"
  nextStartTimeRef :: real
  sourcesRef :: "handle list"

record closure =
  c_transcript :: string
  c_translation :: string
  c_sourceLang :: source_language
  c_targetLang :: language
  c_stream :: "handle option"

definition render :: "app \<Rightarrow> closure" where
  "render s = \<lparr>c_transcript = transcript s, c_translation = translation s,
                c_sourceLang = sourceLang s, c_targetLang = targetLang s, c_stream = stream s\<rparr>"

definition initial_app :: app where
  "initial_app = \<lparr>sourceLang = Auto, targetLang = English, status = Klar, isRecording = False,
                   transcript = [], translation = [], history = [], stream = None,
                   sessionRef = None, inputAudioContextRef = None, outputAudioContextRef = None,
                   nextStartTimeRef = 0, sourcesRef = []\<rparr>"

text \<open>
  What a routine does to the platform is the list of effects it returns, in order:
  creating an audio context (with its sample rate), obtaining a media stream, closing a
  session, stopping the tracks of a stream, closing a context, starting a source node at
  a time (with the duration of its buffer), stopping a node, and \<open>console.error\<close>.
\<close>

datatype effect =
    NewAudioContext handle nat
  | AcquireStream handle
  | CloseSession handle
  | StopTracks handle
  | CloseAudioContext handle
  | StartSource handle real real
  | StopSource handle
  | ConsoleError

section \<open>The message handler\<close>

text \<open>
  Of a \<open>LiveServerMessage\<close> the handler reads \<open>serverContent\<close>, which may be absent. An
  absent \<open>inputTranscription\<close> is \<open>None\<close>, one without \<open>text\<close> is \<open>Some None\<close>. \<open>modelTurn\<close>
  is absent, or lacks \<open>parts\<close>, or has a list of parts, each given by the value of its
  \<open>inlineData?.data\<close>. A \<open>tick\<close> is what the platform answers during one run of the
  handler: the reading of \<open>ctx.currentTime\<close>, the value of \<open>new Date()\<close>, and the node
  \<open>createBufferSource\<close> returns.
\<close>

record server_content =
  inputTranscription :: "string option option"
  outputTranscription :: "string option option"
  modelTurn :: "string option list option option"
  turnComplete :: bool
  interrupted :: bool

type_synonym server_message = "server_content option"

record tick =
  currentTime :: real
  date :: nat
  newSource :: handle

text \<open>\<open>sourcesRef\<close> is a \<open>Set\<close>: it keeps insertion order and holds a node once.\<close>

definition set_add :: "handle \<Rightarrow> handle list \<Rightarrow> handle list" where
  "set_add h hs = (if h \<in> set hs then hs else hs @ [h])"

text \<open>
  \<^verbatim>\<open>if (message.serverContent?.inputTranscription)
    setTranscript(prev => message.serverContent?.inputTranscription?.text || prev);\<close>
  and the same for \<open>outputTranscription\<close> and \<open>setTranslation\<close>.
\<close>

definition or_prev :: "string option \<Rightarrow> string \<Rightarrow> string" where
  "or_prev text prev = (case text of None \<Rightarrow> prev | Some t \<Rightarrow> if t = [] then prev else t)"

definition transcription_block :: "server_message \<Rightarrow> app \<Rightarrow> app" where
  "transcription_block message s =
     (case message of
        None \<Rightarrow> s
      | Some c \<Rightarrow>
          let s1 = (case inputTranscription c of
                      None \<Rightarrow> s
                    | Some text \<Rightarrow> s\<lparr>transcript := or_prev text (transcript s)\<rparr>)
          in (case outputTranscription c of
                None \<Rightarrow> s1
              | Some text \<Rightarrow> s1\<lparr>translation := or_prev text (translation s1)\<rparr>))"

text \<open>
  \<^verbatim>\<open>const audioData = message.serverContent?.modelTurn?.parts[0]?.inlineData?.data;\<close>
  Nothing guards \<open>parts\<close>: on a \<open>modelTurn\<close> without it the index throws \<open>TypeError\<close>.
\<close>

definition audioData :: "server_message \<Rightarrow> js_error + string option" where
  "audioData message =
     (case message of
        None \<Rightarrow> Inr None
      | Some c \<Rightarrow>
          (case modelTurn c of
             None \<Rightarrow> Inr None
           | Some None \<Rightarrow> Inl TypeError
           | Some (Some []) \<Rightarrow> Inr None
           | Some (Some (p # _)) \<Rightarrow> Inr p))"

text \<open>
  The scheduling block, lines 156 to 171 of the first revision:
  \<^verbatim>\<open>if (audioData && outputAudioContextRef.current) {
    nextStartTimeRef.current = Math.max(nextStartTimeRef.current, ctx.currentTime);
    const audioBuffer = await decodeAudioData(decode(audioData), ctx, 24000, 1);
    ... source.onended = () => sourcesRef.current.delete(source);
    source.start(nextStartTimeRef.current);
    nextStartTimeRef.current += audioBuffer.duration;
    sourcesRef.current.add(source);
    setStatus('Taler...'); }\<close>
  The handler is \<open>async\<close>; an exception ends this run of it with the state as it is then.
\<close>

definition audio_block ::
  "tick \<Rightarrow> server_message \<Rightarrow> app \<Rightarrow> effect list \<times> js_error option \<times> app" where
  "audio_block tk message s =
     (case audioData message of
        Inl e \<Rightarrow> ([], Some e, s)
      | Inr None \<Rightarrow> ([], None, s)
      | Inr (Some data) \<Rightarrow>
          if data = [] \<or> outputAudioContextRef s = None then ([], None, s)
          else
            let s1 = s\<lparr>nextStartTimeRef := max (nextStartTimeRef s) (currentTime tk)\<rparr>
            in (case decode data of
                  Inl e \<Rightarrow> ([], Some e, s1)
                | Inr bytes \<Rightarrow>
                    (case decodeAudioData (fresh bytes) 24000 1 of
                       Inl e \<Rightarrow> ([], Some e, s1)
                     | Inr audioBuffer \<Rightarrow>
                         ([StartSource (newSource tk) (nextStartTimeRef s1) (duration audioBuffer)],
                          None,
                          s1\<lparr>nextStartTimeRef := nextStartTimeRef s1 + duration audioBuffer,
                             sourcesRef := set_add (newSource tk) (sourcesRef s1),
                             status := Taler\<rparr>))))"

text \<open>
  The history item of lines 176 to 182. \<open>transcript\<close>, \<open>translation\<close>, \<open>sourceLang\<close> and
  \<open>targetLang\<close> are state variables, so the handler reads them in its closure.
\<close>

definition new_history_item :: "closure \<Rightarrow> tick \<Rightarrow> history_item" where
  "new_history_item cl tk =
     \<lparr>timestamp = date tk,
      originalText = c_transcript cl,
      translatedText = c_translation cl,
      sourceLangLabel = (case c_sourceLang cl of Auto \<Rightarrow> AutoLabel | Source l \<Rightarrow> LanguageName l),
      targetLangLabel = LanguageName (c_targetLang cl)\<rparr>"

definition is_turnComplete :: "server_message \<Rightarrow> bool" where
  "is_turnComplete message = (case message of None \<Rightarrow> False | Some c \<Rightarrow> turnComplete c)"

definition is_interrupted :: "server_message \<Rightarrow> bool" where
  "is_interrupted message = (case message of None \<Rightarrow> False | Some c \<Rightarrow> interrupted c)"

text \<open>
  First revision, lines 173 to 183:
  \<^verbatim>\<open>if (message.serverContent?.turnComplete) {
    setStatus('Lytter...');
    setHistory(prev => [{ timestamp: new Date(), originalText: transcript, ... }, ...prev]); }\<close>
\<close>

definition turnComplete_block :: "closure \<Rightarrow> tick \<Rightarrow> server_message \<Rightarrow> app \<Rightarrow> app" where
  "turnComplete_block cl tk message s =
     (if is_turnComplete message
      then s\<lparr>status := Lytter, history := new_history_item cl tk # history s\<rparr>
      else s)"

text \<open>
  Third revision, lines 960 to 972, where the update stands under
  \<^verbatim>\<open>// Update History only if there's actual content
  if (transcript && translation) { setHistory(...) }\<close>
\<close>

definition turnComplete_block_guarded ::
  "closure \<Rightarrow> tick \<Rightarrow> server_message \<Rightarrow> app \<Rightarrow> app" where
  "turnComplete_block_guarded cl tk message s =
     (if is_turnComplete message
      then (let s1 = s\<lparr>status := Lytter\<rparr>
            in if c_transcript cl \<noteq> [] \<and> c_translation cl \<noteq> []
               then s1\<lparr>history := new_history_item cl tk # history s1\<rparr>
               else s1)
      else s)"

text \<open>
  Lines 185 to 189:
  \<^verbatim>\<open>if (message.serverContent?.interrupted) {
    sourcesRef.current.forEach(s => s.stop());
    sourcesRef.current.clear();
    nextStartTimeRef.current = 0; }\<close>
\<close>

definition interrupted_block :: "server_message \<Rightarrow> app \<Rightarrow> effect list \<times> app" where
  "interrupted_block message s =
     (if is_interrupted message
      then (map StopSource (sourcesRef s), s\<lparr>sourcesRef := [], nextStartTimeRef := 0\<rparr>)
      else ([], s))"

definition onmessage ::
  "closure \<Rightarrow> tick \<Rightarrow> server_message \<Rightarrow> app \<Rightarrow> effect list \<times> js_error option \<times> app" where
  "onmessage cl tk message s =
     (case audio_block tk message (transcription_block message s) of
        (fx, Some e, s1) \<Rightarrow> (fx, Some e, s1)
      | (fx, None, s1) \<Rightarrow>
          (case interrupted_block message (turnComplete_block cl tk message s1) of
             (fx', s2) \<Rightarrow> (fx @ fx', None, s2)))"

text \<open>\<^verbatim>\<open>source.onended = () => sourcesRef.current.delete(source);\<close>\<close>

definition onended :: "handle \<Rightarrow> app \<Rightarrow> app" where
  "onended source s = s\<lparr>sourcesRef := removeAll source (sourcesRef s)\<rparr>"

section \<open>Stopping and starting a session\<close>

text \<open>
  Lines 70 to 86. \<open>sessionRef\<close> and \<open>inputAudioContextRef\<close> are refs; \<open>stream\<close> is a state
  variable, read in the closure and cleared by \<open>setStream(null)\<close>. The output context is
  left alone: \<^verbatim>\<open>// We keep output context warm or close it\<close>.
\<close>

definition stopSession :: "closure \<Rightarrow> app \<Rightarrow> effect list \<times> app" where
  "stopSession cl s =
     (let s0 = s\<lparr>isRecording := False\<rparr>;
          (fx1, s1) = (case sessionRef s0 of
                         Some session \<Rightarrow> ([CloseSession session], s0\<lparr>sessionRef := None\<rparr>)
                       | None \<Rightarrow> ([], s0));
          (fx2, s2) = (case c_stream cl of
                         Some m \<Rightarrow> ([StopTracks m], s1\<lparr>stream := None\<rparr>)
                       | None \<Rightarrow> ([], s1));
          (fx3, s3) = (case inputAudioContextRef s2 of
                         Some ctx \<Rightarrow> ([CloseAudioContext ctx], s2\<lparr>inputAudioContextRef := None\<rparr>)
                       | None \<Rightarrow> ([], s2))
      in (fx1 @ fx2 @ fx3, s3\<lparr>status := Klar\<rparr>))"

text \<open>
  \<^verbatim>\<open>onclose: () => stopSession(),
  onerror: (e) => { console.error(...); setStatus('Error'); stopSession(); }\<close>
\<close>

definition onclose :: "closure \<Rightarrow> app \<Rightarrow> effect list \<times> app" where
  "onclose cl s = stopSession cl s"

definition onerror :: "closure \<Rightarrow> app \<Rightarrow> effect list \<times> app" where
  "onerror cl s =
     (case stopSession cl (s\<lparr>status := Error\<rparr>) of (fx, s1) \<Rightarrow> (ConsoleError # fx, s1))"

text \<open>
  Lines 88 to 206. The platform answers four times: with the two audio contexts, with the
  outcome of \<open>getUserMedia\<close> and with the outcome of \<open>ai.live.connect\<close>. Whatever throws
  inside the \<open>try\<close> ends in
  \<^verbatim>\<open>catch (err) { console.error(...); setStatus('Error'); }\<close>
\<close>

record platform =
  newInputCtx :: handle
  newOutputCtx :: handle
  getUserMedia :: "js_error + handle"
  connect :: "js_error + handle"

definition startSession :: "platform \<Rightarrow> app \<Rightarrow> effect list \<times> app" where
  "startSession pf s =
     (let s1 = s\<lparr>status := Lytter\<rparr>;
          s2 = s1\<lparr>inputAudioContextRef := Some (newInputCtx pf),
                  outputAudioContextRef := Some (newOutputCtx pf)\<rparr>;
          fx = [NewAudioContext (newInputCtx pf) 16000, NewAudioContext (newOutputCtx pf) 24000]
      in (case getUserMedia pf of
            Inl e \<Rightarrow> (fx @ [ConsoleError], s2\<lparr>status := Error\<rparr>)
          | Inr mediaStream \<Rightarrow>
              let s3 = s2\<lparr>stream := Some mediaStream\<rparr>
              in (case connect pf of
                    Inl e \<Rightarrow> (fx @ [AcquireStream mediaStream, ConsoleError], s3\<lparr>status := Error\<rparr>)
                  | Inr session \<Rightarrow>
                      (fx @ [AcquireStream mediaStream], s3\<lparr>sessionRef := Some session\<rparr>))))"

section \<open>Runs and what they leave behind\<close>

text \<open>
  Events reach the handlers one at a time, in arrival order. A handler that throws has
  left its trace; the next event is handled all the same.
\<close>

datatype event = Message tick server_message | Ended handle

fun run :: "closure \<Rightarrow> event list \<Rightarrow> app \<Rightarrow> effect list \<times> app" where
  "run cl [] s = ([], s)"
| "run cl (Message tk m # evs) s =
     (case onmessage cl tk m s of
        (fx, _, s1) \<Rightarrow> (case run cl evs s1 of (fx', s2) \<Rightarrow> (fx @ fx', s2)))"
| "run cl (Ended source # evs) s = run cl evs (onended source s)"

fun is_interrupt :: "event \<Rightarrow> bool" where
  "is_interrupt (Message tk m) = is_interrupted m"
| "is_interrupt (Ended h) = False"

text \<open>
  The playback ranges a list of effects schedules, as pairs of start time and duration,
  and the order on them: one range ends before the other begins.
\<close>

fun scheduled :: "effect list \<Rightarrow> (real \<times> real) list" where
  "scheduled [] = []"
| "scheduled (StartSource h t d # fx) = (t, d) # scheduled fx"
| "scheduled (_ # fx) = scheduled fx"

definition before :: "real \<times> real \<Rightarrow> real \<times> real \<Rightarrow> bool" where
  "before a b = (fst a \<le> fst b \<and> fst a + snd a \<le> fst b)"

text \<open>A context that a list of effects creates and does not close is still open.\<close>

definition context_open :: "effect list \<Rightarrow> handle \<Rightarrow> bool" where
  "context_open fx h =
     (list_ex (\<lambda>e. case e of NewAudioContext h' r \<Rightarrow> h' = h | _ \<Rightarrow> False) fx
      \<and> CloseAudioContext h \<notin> set fx)"

fun is_AcquireStream :: "effect \<Rightarrow> bool" where
  "is_AcquireStream (AcquireStream m) = True"
| "is_AcquireStream _ = False"

fun is_StopTracks :: "effect \<Rightarrow> bool" where
  "is_StopTracks (StopTracks m) = True"
| "is_StopTracks _ = False"

section \<open>Sample inputs\<close>

text \<open>
  A message that carries nothing, a message with one chunk of two samples (the bytes
  \<open>00 40 00 80\<close>, that is \<open>1/2\<close> and \<open>-1\<close>), a state in the middle of playback, and a state
  with a session open.
\<close>

definition quiet_content :: server_content where
  "quiet_content = \<lparr>inputTranscription = None, outputTranscription = None, modelTurn = None,
                      turnComplete = False, interrupted = False\<rparr>"

definition audio_content :: server_content where
  "audio_content = quiet_content\<lparr>modelTurn := Some (Some [Some ''AEAAgA==''])\<rparr>"

definition playing_app :: app where
  "playing_app = initial_app\<lparr>outputAudioContextRef := Some 2, nextStartTimeRef := 10,
                              sourcesRef := [7, 8]\<rparr>"

definition open_app :: app where
  "open_app = initial_app\<lparr>status := Lytter, isRecording := True, stream := Some 4,
                           sessionRef := Some 3, inputAudioContextRef := Some 1,
                           outputAudioContextRef := Some 2\<rparr>"

text \<open>
  Two sessions in a row. The first is started from the initial state and closed by the
  server, so that \<open>onclose\<close> runs in the closure of the render that started it. The second
  is started from the state that leaves.
\<close>

definition first_platform :: platform where
  "first_platform = \<lparr>newInputCtx = 1, newOutputCtx = 2, getUserMedia = Inr 4, connect = Inr 3\<rparr>"

definition second_platform :: platform where
  "second_platform = \<lparr>newInputCtx = 5, newOutputCtx = 6, getUserMedia = Inr 8, connect = Inr 7\<rparr>"

definition after_first_close :: app where
  "after_first_close =
     snd (onclose (render initial_app) (snd (startSession first_platform initial_app)))"

definition second_session :: app where
  "second_session = snd (startSession second_platform after_first_close)"

section \<open>The base64 layer is lossless\<close>

lemma div_64_small: "(z::nat) < 256 \<Longrightarrow> z div 64 < 4"
  by (simp add: less_mult_imp_div_less)

lemma div_16_small: "(y::nat) < 256 \<Longrightarrow> y div 16 < 16"
  by (simp add: less_mult_imp_div_less)

lemma low_div: "(b::nat) < n \<Longrightarrow> (a * n + b) div n = a"
  by simp

lemma low_mod: "(b::nat) < n \<Longrightarrow> (a * n + b) mod n = b"
  by simp

lemma join_first: "(x::nat) div 4 * 4 + (x mod 4 * 16 + y div 16) div 16 = x" if "y < 256"
proof -
  have "(x mod 4 * 16 + y div 16) div 16 = x mod 4"
    by (rule low_div [OF div_16_small [OF that]])
  then show ?thesis by simp
qed

lemma join_second:
  "(x mod 4 * 16 + y div 16) mod 16 * 16 + (y mod 16 * 4 + z div 64) div 4 = (y::nat)"
  if "y < 256" "z < 256"
proof -
  have "(x mod 4 * 16 + y div 16) mod 16 = y div 16"
    by (rule low_mod [OF div_16_small [OF that(1)]])
  moreover have "(y mod 16 * 4 + z div 64) div 4 = y mod 16"
    by (rule low_div [OF div_64_small [OF that(2)]])
  ultimately show ?thesis by simp
qed

lemma join_third: "(y mod 16 * 4 + z div 64) mod 4 * 64 + z mod 64 = (z::nat)" if "z < 256"
proof -
  have "(y mod 16 * 4 + z div 64) mod 4 = z div 64"
    by (rule low_mod [OF div_64_small [OF that]])
  then show ?thesis by simp
qed

lemma join_first_short: "(x::nat) div 4 * 4 + (x mod 4 * 16) div 16 = x"
  by simp

lemma join_second_short:
  "(x mod 4 * 16 + y div 16) mod 16 * 16 + (y mod 16 * 4) div 4 = (y::nat)" if "y < 256"
proof -
  have "(x mod 4 * 16 + y div 16) mod 16 = y div 16"
    by (rule low_mod [OF div_16_small [OF that]])
  then show ?thesis by simp
qed

lemma sextet_bounds:
  "(x::nat) < 256 \<Longrightarrow> x div 4 < 64"
  "(x::nat) mod 4 * 16 < 64"
  "(y::nat) < 256 \<Longrightarrow> x mod 4 * 16 + y div 16 < 64"
  "(y::nat) mod 16 * 4 < 64"
  "(z::nat) < 256 \<Longrightarrow> y mod 16 * 4 + z div 64 < 64"
  "(z::nat) mod 64 < 64"
proof -
  show "x < 256 \<Longrightarrow> x div 4 < 64" by (simp add: less_mult_imp_div_less)
  have a: "x mod 4 \<le> 3" using mod_less_divisor [of 4 x] by linarith
  then show "x mod 4 * 16 < 64" by linarith
  have b: "y mod 16 \<le> 15" using mod_less_divisor [of 16 y] by linarith
  then show "y mod 16 * 4 < 64" by linarith
  show "x mod 4 * 16 + y div 16 < 64" if "y < 256"
    using a div_16_small [OF that] by linarith
  show "y mod 16 * 4 + z div 64 < 64" if "z < 256"
    using b div_64_small [OF that] by linarith
  show "z mod 64 < 64" by simp
qed

lemma sextets_bound: "\<forall>x\<in>set xs. x < 256 \<Longrightarrow> \<forall>n\<in>set (sextets xs). n < 64"
proof (induction xs rule: sextets.induct)
  case 1
  show ?case by simp
next
  case (2 x)
  then have "x < 256" by simp
  then show ?case by (simp add: sextet_bounds)
next
  case (3 x y)
  then have "x < 256" "y < 256" by simp_all
  then show ?case by (simp add: sextet_bounds)
next
  case (4 x y z rest)
  then have "x < 256" "y < 256" "z < 256" and "\<forall>n\<in>set (sextets rest). n < 64"
    by simp_all
  then show ?case by (simp add: sextet_bounds)
qed

lemma mod3_step: "Suc (Suc (Suc n)) mod 3 = n mod 3"
proof -
  have "Suc (Suc (Suc n)) = n + 3" by simp
  then show ?thesis by (simp only: mod_add_self2)
qed

lemma sextets_padded_length:
  "(length (sextets xs) + (3 - length xs mod 3) mod 3) mod 4 = 0"
proof (induction xs rule: sextets.induct)
  case 1
  show ?case by simp
next
  case (2 x)
  show ?case by simp
next
  case (3 x y)
  have "length [x, y] mod 3 = 2" by simp
  then show ?case by simp
next
  case (4 x y z rest)
  let ?a = "length (sextets rest)" and ?k = "(3 - length rest mod 3) mod 3"
  have "length (x # y # z # rest) mod 3 = length rest mod 3"
    by (simp only: length_Cons mod3_step)
  moreover have "length (sextets (x # y # z # rest)) = ?a + 4" by simp
  ultimately have "length (sextets (x # y # z # rest))
      + (3 - length (x # y # z # rest) mod 3) mod 3 = (?a + ?k) + 4"
    by (simp only: add.assoc add.commute [of 4])
  also have "\<dots> mod 4 = (?a + ?k) mod 4" by (simp only: mod_add_self2)
  finally show ?case using "4.IH" by simp
qed

lemma sextets_length_mod4: "length (sextets xs) mod 4 \<noteq> Suc 0"
  by (induction xs rule: sextets.induct) simp_all

lemma sextets_inverse: "\<forall>x\<in>set xs. x < 256 \<Longrightarrow> sextets_to_bytes (sextets xs) = xs"
proof (induction xs rule: sextets.induct)
  case 1
  show ?case by simp
next
  case (2 x)
  show ?case
    by (simp only: sextets.simps sextets_to_bytes.simps join_first_short)
next
  case (3 x y)
  have y: "y < 256" using "3.prems" by simp
  show ?case
    by (simp only: sextets.simps sextets_to_bytes.simps join_first [OF y]
        join_second_short [OF y])
next
  case (4 x y z rest)
  have y: "y < 256" and z: "z < 256" and rest: "\<forall>x\<in>set rest. x < 256"
    using "4.prems" by simp_all
  have ih: "sextets_to_bytes (sextets rest) = rest"
    using "4.IH" rest by blast
  show ?case
    by (simp only: sextets.simps sextets_to_bytes.simps append_Cons append_Nil
        join_first [OF y] join_second [OF y z] join_third [OF z] ih)
qed

lemma b64_value_char: "n < 64 \<Longrightarrow> b64_value (b64_char n) = Some n"
  by (auto simp: b64_value_def b64_char_def Let_def)

lemma of_char_b64_char:
  "(of_char (b64_char n) :: nat) =
     (if n < 26 then 65 + n else if n < 52 then 71 + n else if n < 62 then n - 4
      else if n = 62 then 43 else 47)"
  by (simp add: b64_char_def)

lemma b64_char_not_pad: "b64_char n \<noteq> CHR ''=''"
proof
  assume "b64_char n = CHR ''=''"
  then have "(of_char (b64_char n) :: nat) = of_char (CHR ''='')" by simp
  then show False by (simp add: of_char_b64_char split: if_splits)
qed

lemma b64_char_not_space: "n < 64 \<Longrightarrow> \<not> ascii_whitespace (b64_char n)"
  by (auto simp: b64_char_def ascii_whitespace_def)

lemma pad_not_space: "\<not> ascii_whitespace (CHR ''='')"
  by (simp add: ascii_whitespace_def)

lemma those_b64_value:
  "\<forall>n\<in>set ns. n < 64 \<Longrightarrow> those (map b64_value (map b64_char ns)) = Some ns"
  by (induction ns) (simp_all add: b64_value_char)

lemma strip_padding_body:
  assumes "k \<le> 2" "(length body + k) mod 4 = 0" "body = [] \<or> last body \<noteq> CHR ''=''"
  shows "strip_padding (body @ replicate k (CHR ''='')) = body"
proof -
  consider "k = 0" | "k = 1" | "k = 2" using assms(1) by linarith
  then show ?thesis
  proof cases
    case 1
    with assms show ?thesis by (auto simp: strip_padding_def)
  next
    case 2
    with assms have "body \<noteq> []" by auto
    with 2 assms show ?thesis by (auto simp: strip_padding_def)
  next
    case 3
    with assms show ?thesis by (auto simp: strip_padding_def numeral_2_eq_2 butlast_append)
  qed
qed

lemma atob_btoa: "atob (btoa s) = Some s"
proof -
  let ?xs = "map of_char s :: nat list"
  let ?body = "map b64_char (sextets ?xs)"
  let ?k = "(3 - length s mod 3) mod 3"
  have small: "\<forall>x\<in>set ?xs. x < 256" by auto
  have six: "\<forall>n\<in>set (sextets ?xs). n < 64" using sextets_bound [OF small] .
  have nospace: "filter (\<lambda>c. \<not> ascii_whitespace c) (btoa s) = btoa s"
    using six by (auto simp: btoa_def filter_id_conv b64_char_not_space pad_not_space)
  have len: "(length ?body + ?k) mod 4 = 0"
    using sextets_padded_length [of ?xs] by simp
  have lastb: "?body = [] \<or> last ?body \<noteq> CHR ''=''"
    by (cases "sextets ?xs = []") (simp_all add: last_map b64_char_not_pad)
  have strip: "strip_padding (btoa s) = ?body"
    unfolding btoa_def by (rule strip_padding_body [OF _ len lastb]) simp
  have len1: "length ?body mod 4 \<noteq> 1"
    using sextets_length_mod4 [of ?xs] by simp
  have vals: "those (map b64_value ?body) = Some (sextets ?xs)"
    using those_b64_value [OF six] .
  have bytes: "map char_of (sextets_to_bytes (sextets ?xs)) = s"
    by (simp add: sextets_inverse [OF small] comp_def)
  show ?thesis
    unfolding atob_def nospace strip Let_def using len1 vals bytes by simp
qed

lemma byte_char_byte: "word_of_nat (of_char (char_of (unat b) :: char)) = (b :: byte)"
proof -
  have "unat b < 2 ^ LENGTH(8)" by (rule unsigned_less)
  then have "unat b mod 256 = unat b" by simp
  then show ?thesis by simp
qed

lemma bytes_via_chars:
  "map (\<lambda>c. word_of_nat (of_char c)) (map (\<lambda>b. char_of (unat b)) b) = (b :: byte list)"
  by (simp only: map_map comp_def byte_char_byte map_ident)

text \<open>
  C10. For every byte array \<open>b\<close>, \<open>decode (encode b)\<close> returns a byte array equal to \<open>b\<close>:
  the base64 transport encoding used for audio chunks loses nothing.
\<close>

theorem C10_decode_encode: "decode (encode b) = Inr b"
proof -
  have "atob (encode b) = Some (map (\<lambda>b. char_of (unat b)) b)"
    by (simp only: encode_def atob_btoa)
  then show ?thesis
    by (simp only: decode_def option.case bytes_via_chars)
qed

section \<open>The sample layer\<close>

lemma int16_bytes_inverse:
  "ucast (ucast w :: byte) OR push_bit 8 (ucast (ucast (drop_bit 8 w) :: byte)) = (w :: int16)"
  by (rule bit_word_eqI) (auto simp: bit_simps)

lemma bytes_int16_concat: "bytes_int16 (concat (map int16_bytes ws)) = ws"
  by (induction ws) (simp_all add: int16_bytes_def int16_bytes_inverse)

lemma length_bytes_int16: "length (bytes_int16 bs) = length bs div 2"
  by (induction bs rule: bytes_int16.induct) simp_all

lemma truncate_close: "\<bar>real_of_int (js_truncate y) - y\<bar> < 1"
  unfolding js_truncate_def by (auto; linarith)

lemma truncate_range:
  assumes "- 32768 \<le> y" "y < 32768"
  shows "- 32768 \<le> js_truncate y" "js_truncate y < 32768"
  using assms unfolding js_truncate_def by (auto; linarith)+

lemma sint_to_int16:
  assumes "- 32768 \<le> y" "y < 32768"
  shows "sint (to_int16 y) = js_truncate y"
proof -
  have "- (2 ^ 15) \<le> js_truncate y" "js_truncate y < 2 ^ 15"
    using truncate_range [OF assms] by simp_all
  then show ?thesis
    unfolding to_int16_def by (simp add: sint_sbintrunc' signed_take_bit_int_eq_self)
qed

lemma requantise_close:
  assumes "- 1 \<le> x" "x < 1"
  shows "\<bar>real_of_int (sint (to_int16 (x * 32768))) / 32768 - x\<bar> < 1 / 32768"
proof -
  let ?y = "x * 32768"
  have range: "- 32768 \<le> ?y" "?y < 32768" using assms by simp_all
  have "\<bar>real_of_int (js_truncate ?y) - ?y\<bar> < 1" by (rule truncate_close)
  then have "\<bar>real_of_int (js_truncate ?y) / 32768 - x\<bar> < 1 / 32768"
    by (simp add: field_simps abs_if split: if_splits)
  then show ?thesis by (simp only: sint_to_int16 [OF range])
qed

lemma length_concat_int16_bytes: "length (concat (map int16_bytes ws)) = 2 * length ws"
  by (induction ws) (simp_all add: int16_bytes_def)

lemma decodeAudioData_mono:
  assumes "ws \<noteq> []" "8000 \<le> rate" "rate \<le> 96000"
  shows "decodeAudioData (fresh (concat (map int16_bytes ws))) rate 1 =
           Inr \<lparr>channelData = [map (\<lambda>w. real_of_int (sint w) / 32768) ws], sampleRate = rate\<rparr>"
proof -
  have len: "length (concat (map int16_bytes ws)) mod 2 = 0"
    by (simp add: length_concat_int16_bytes)
  have one: "[0..<1] = [0::nat]" by simp
  show ?thesis
    unfolding decodeAudioData_def createBuffer_def fresh_def
    using assms
    by (simp add: len bytes_int16_concat Let_def one) (rule nth_equalityI; simp)
qed

lemma bytes_int16_nth:
  "k < length bs div 2 \<Longrightarrow>
     bytes_int16 bs ! k = (ucast (bs ! (2 * k)) OR push_bit 8 (ucast (bs ! (2 * k + 1))))"
proof (induction bs arbitrary: k rule: bytes_int16.induct)
  case (1 lo hi rest)
  then show ?case by (cases k) simp_all
qed simp_all

text \<open>
  C6 as it stands, for samples in \<open>[-1, 1]\<close>, fails at the sample \<open>1\<close>: the product is
  \<open>32768\<close>, the store wraps it to \<open>-32768\<close>, and the decoder returns \<open>-1\<close>.
\<close>

theorem C6_full_scale_wraps:
  "(1::real) \<in> {- 1..1}
   \<and> decode (onaudioprocess [1]) = Inr [0, 128]
   \<and> decodeAudioData (fresh [0, 128]) 24000 1
       = Inr \<lparr>channelData = [[- 1]], sampleRate = 24000\<rparr>
   \<and> \<not> \<bar>(- 1) - (1::real)\<bar> \<le> 1 / 32768"
proof -
  have "decode (onaudioprocess [1]) = Inr [0, 128]" by code_simp
  moreover have "decodeAudioData (fresh [0, 128]) 24000 1
      = Inr \<lparr>channelData = [[- 1]], sampleRate = 24000\<rparr>"
    by (simp add: decodeAudioData_def createBuffer_def fresh_def Let_def upt_rec)
  ultimately show ?thesis by simp
qed

text \<open>
  C6, amended. For every sequence of float samples that is not empty, each sample in
  \<open>[-1, 1)\<close>, encoding (scale by \<open>32768\<close>, truncate to 16-bit signed little-endian, base64)
  followed by decoding (base64, reinterpret as 16-bit little-endian, divide by \<open>32768\<close>)
  succeeds and yields one channel of the same length whose samples differ from the input
  by at most \<open>1/32768\<close>. (An empty chunk is refused by \<open>createBuffer\<close>.)
\<close>

theorem C6_round_trip:
  assumes "xs \<noteq> []" "\<forall>x\<in>set xs. - 1 \<le> x \<and> x < 1" "8000 \<le> rate" "rate \<le> 96000"
  shows "\<exists>bytes ys. decode (onaudioprocess xs) = Inr bytes
           \<and> decodeAudioData (fresh bytes) rate 1
               = Inr \<lparr>channelData = [ys], sampleRate = rate\<rparr>
           \<and> length ys = length xs
           \<and> (\<forall>i<length xs. \<bar>ys ! i - xs ! i\<bar> \<le> 1 / 32768)"
proof -
  let ?ws = "map (\<lambda>x. to_int16 (x * 32768)) xs"
  let ?ys = "map (\<lambda>w. real_of_int (sint w) / 32768) ?ws"
  have "decode (onaudioprocess xs) = Inr (concat (map int16_bytes ?ws))"
    by (simp only: onaudioprocess_def Let_def decode_def encode_def atob_btoa option.case
        bytes_via_chars)
  moreover have "decodeAudioData (fresh (concat (map int16_bytes ?ws))) rate 1
      = Inr \<lparr>channelData = [?ys], sampleRate = rate\<rparr>"
    using assms by (intro decodeAudioData_mono) simp_all
  moreover have "length ?ys = length xs" by simp
  moreover have "\<forall>i<length xs. \<bar>?ys ! i - xs ! i\<bar> \<le> 1 / 32768"
  proof (intro allI impI)
    fix i
    assume i: "i < length xs"
    then have "xs ! i \<in> set xs" by simp
    with assms(2) have "- 1 \<le> xs ! i" "xs ! i < 1" by blast+
    from requantise_close [OF this] i show "\<bar>?ys ! i - xs ! i\<bar> \<le> 1 / 32768" by simp
  qed
  ultimately show ?thesis by blast
qed

theorem C6_round_trip_witness:
  "[1 / 2, - 1 :: real] \<noteq> []
   \<and> (- 1 \<le> (1 / 2 :: real) \<and> (1 / 2 :: real) < 1)
   \<and> (- 1 \<le> (- 1 :: real) \<and> (- 1 :: real) < 1)
   \<and> (\<exists>bytes ys. decode (onaudioprocess [1 / 2, - 1]) = Inr bytes
         \<and> decodeAudioData (fresh bytes) 24000 1
             = Inr \<lparr>channelData = [ys], sampleRate = 24000\<rparr>
         \<and> length ys = length [1 / 2, - 1 :: real]
         \<and> (\<forall>i<length [1 / 2, - 1 :: real]. \<bar>ys ! i - [1 / 2, - 1] ! i\<bar> \<le> 1 / 32768))"
proof -
  have a: "[1 / 2, - 1 :: real] \<noteq> []" by simp
  have b: "\<forall>x\<in>set [1 / 2, - 1 :: real]. - 1 \<le> x \<and> x < 1" by simp
  have c: "(8000::nat) \<le> 24000" "(24000::nat) \<le> 96000" by simp_all
  from C6_round_trip [OF a b c] show ?thesis by simp
qed

text \<open>No samples, no buffer: \<open>createBuffer\<close> refuses a length of zero.\<close>

lemma decodeAudioData_empty: "decodeAudioData (fresh []) 24000 1 = Inl NotSupportedError"
  by (simp add: decodeAudioData_def createBuffer_def fresh_def)

text \<open>
  A window of three bytes on a buffer of four: the length of the window is odd, the
  decoder does not fail, and its two samples are those of the whole buffer.
\<close>

lemma decodeAudioData_reads_the_buffer:
  "decodeAudioData \<lparr>arrayBuffer = [0, 64, 0, 128], byteOffset = 0, byteLength = 3\<rparr> 24000 1
     = Inr \<lparr>channelData = [[1 / 2, - 1]], sampleRate = 24000\<rparr>"
  by (simp add: decodeAudioData_def createBuffer_def Let_def upt_rec)

text \<open>
  C7 as it stands fails on six bytes for two channels, in an array that covers its buffer:
  six is not a multiple of four, and the decoder returns a buffer of one frame, the third
  sample dropped.
\<close>

theorem C7_partial_frame_accepted:
  "byteLength (fresh [1, 0, 2, 0, 3, 0]) mod (2 * 2) \<noteq> 0
   \<and> decodeAudioData (fresh [1, 0, 2, 0, 3, 0]) 24000 2
       = Inr \<lparr>channelData = [[1 / 32768], [1 / 16384]], sampleRate = 24000\<rparr>"
  by (simp add: decodeAudioData_def createBuffer_def fresh_def Let_def upt_rec)

lemma bytes_int16_at: "k < length bs div 2 \<Longrightarrow> bytes_int16 bs ! k = int16_at bs k"
  unfolding int16_at_def by (rule bytes_int16_nth)

text \<open>
  C7, amended. The length that counts is that of the buffer under the input,
  \<open>data.buffer\<close>; for an array that covers its buffer, as \<open>decode\<close> returns and as the
  handler passes, it is the input byte length. \<open>decodeAudioData\<close> fails, with the
  \<open>RangeError\<close> of the \<open>Int16Array\<close> view, whenever that length is odd. It succeeds whenever
  that length is a multiple of \<open>2 * channels\<close> other than zero (for a channel count and a
  rate that every audio context supports), and returns a planar buffer: sample \<open>i\<close> of a
  channel is the little-endian 16-bit sample \<open>i * channels + channel\<close> of the buffer,
  divided by \<open>32768\<close>.
\<close>

theorem C7_decodeAudioData:
  "(length (arrayBuffer data) mod 2 \<noteq> 0 \<longrightarrow>
      decodeAudioData data rate numChannels = Inl RangeError)
   \<and> (0 < length (arrayBuffer data) \<and> length (arrayBuffer data) mod (2 * numChannels) = 0
        \<and> 1 \<le> numChannels \<and> numChannels \<le> 32 \<and> 8000 \<le> rate \<and> rate \<le> 96000 \<longrightarrow>
       (\<exists>buffer. decodeAudioData data rate numChannels = Inr buffer
          \<and> sampleRate buffer = rate
          \<and> length (channelData buffer) = numChannels
          \<and> (\<forall>channel<numChannels.
                length (channelData buffer ! channel)
                  = length (arrayBuffer data) div (2 * numChannels)
                \<and> (\<forall>i<length (arrayBuffer data) div (2 * numChannels).
                      channelData buffer ! channel ! i
                        = real_of_int (sint (int16_at (arrayBuffer data) (i * numChannels + channel)))
                          / 32768))))
   \<and> arrayBuffer (fresh bytes) = bytes \<and> byteLength (fresh bytes) = length bytes"
proof (intro conjI impI)
  assume "length (arrayBuffer data) mod 2 \<noteq> 0"
  then show "decodeAudioData data rate numChannels = Inl RangeError"
    by (simp add: decodeAudioData_def)
next
  let ?bs = "arrayBuffer data"
  assume h: "0 < length ?bs \<and> length ?bs mod (2 * numChannels) = 0
        \<and> 1 \<le> numChannels \<and> numChannels \<le> 32 \<and> 8000 \<le> rate \<and> rate \<le> 96000"
  let ?n = "length ?bs div (2 * numChannels)"
  from h have dvd: "2 * numChannels dvd length ?bs" by (simp add: dvd_eq_mod_eq_0)
  then have even: "length ?bs mod 2 = 0" by (metis dvd_mult_left dvd_eq_mod_eq_0)
  have frames: "length (bytes_int16 ?bs) div numChannels = ?n"
    by (simp add: length_bytes_int16 div_mult2_eq)
  have data_len: "length ?bs = ?n * (2 * numChannels)" using dvd by simp
  have pos: "0 < ?n" using h data_len by (metis gr0I mult_zero_left less_numeral_extra(3))
  have inrange: "i * numChannels + channel < length ?bs div 2"
    if "i < ?n" "channel < numChannels" for i channel
  proof -
    have "i * numChannels + channel < Suc i * numChannels" using that(2) by simp
    also have "\<dots> \<le> ?n * numChannels"
      by (rule mult_le_mono1) (use that(1) in simp)
    also have "\<dots> = length ?bs div 2"
      by (subst (2) data_len) simp
    finally show ?thesis .
  qed
  let ?buffer = "\<lparr>channelData =
      map (\<lambda>channel. map (\<lambda>i. real_of_int (sint (bytes_int16 ?bs ! (i * numChannels + channel))) / 32768)
             [0..<?n]) [0..<numChannels], sampleRate = rate\<rparr>"
  have "decodeAudioData data rate numChannels = Inr ?buffer"
    using h pos even by (simp add: decodeAudioData_def createBuffer_def Let_def frames)
  moreover have "\<forall>channel<numChannels.
      length (channelData ?buffer ! channel) = ?n
      \<and> (\<forall>i<?n. channelData ?buffer ! channel ! i
            = real_of_int (sint (int16_at ?bs (i * numChannels + channel))) / 32768)"
    by (simp add: bytes_int16_at inrange)
  ultimately show "\<exists>buffer. decodeAudioData data rate numChannels = Inr buffer
          \<and> sampleRate buffer = rate
          \<and> length (channelData buffer) = numChannels
          \<and> (\<forall>channel<numChannels.
                length (channelData buffer ! channel) = ?n
                \<and> (\<forall>i<?n. channelData buffer ! channel ! i
                        = real_of_int (sint (int16_at ?bs (i * numChannels + channel))) / 32768))"
    by (intro exI [of _ ?buffer]) simp
next
  show "arrayBuffer (fresh bytes) = bytes" by (simp add: fresh_def)
next
  show "byteLength (fresh bytes) = length bytes" by (simp add: fresh_def)
qed

theorem C7_decodeAudioData_witness:
  "length (arrayBuffer (fresh [1, 2, 3])) mod 2 \<noteq> 0
   \<and> decodeAudioData (fresh [1, 2, 3]) 24000 1 = Inl RangeError
   \<and> 0 < length (arrayBuffer (fresh [0, 64, 0, 128]))
   \<and> length (arrayBuffer (fresh [0, 64, 0, 128])) mod (2 * 1) = 0
   \<and> (\<exists>buffer. decodeAudioData (fresh [0, 64, 0, 128]) 24000 1 = Inr buffer
         \<and> sampleRate buffer = 24000 \<and> length (channelData buffer) = 1)"
proof -
  have odd: "length (arrayBuffer (fresh [1, 2, 3])) mod 2 \<noteq> 0" by (simp add: fresh_def)
  have ok: "0 < length (arrayBuffer (fresh [0, 64, 0, 128]))
        \<and> length (arrayBuffer (fresh [0, 64, 0, 128])) mod (2 * 1) = 0
        \<and> (1::nat) \<le> 1 \<and> (1::nat) \<le> 32 \<and> (8000::nat) \<le> 24000 \<and> (24000::nat) \<le> 96000"
    by (simp add: fresh_def)
  note fails = C7_decodeAudioData [of "fresh [1, 2, 3]" 24000 1 "[]", THEN conjunct1, THEN mp]
  note succeeds = C7_decodeAudioData [of "fresh [0, 64, 0, 128]" 24000 1 "[]",
      THEN conjunct2, THEN conjunct1, THEN mp]
  have "decodeAudioData (fresh [1, 2, 3]) 24000 1 = Inl RangeError"
    using odd by (rule fails)
  moreover from succeeds [OF ok] obtain buffer where
    "decodeAudioData (fresh [0, 64, 0, 128]) 24000 1 = Inr buffer"
    "sampleRate buffer = 24000" "length (channelData buffer) = 1"
    by blast
  ultimately show ?thesis using odd ok by blast
qed

section \<open>translateText\<close>

text \<open>
  C9 as it stands, for every input text, fails on a blank one: whatever the backend would
  answer, the result is the empty string, which is neither the backend's text nor an
  error string.
\<close>

theorem C9_blank_input:
  "translateText (\<lambda>m c. Response (Some (ascii ''Hola''))) (ascii '' '') (ascii ''English'')
      (ascii ''gemini-3-flash-preview'') = Inr []
   \<and> translateText (\<lambda>m c. Rejected) (ascii '' '') (ascii ''English'')
      (ascii ''gemini-3-flash-preview'') = Inr []
   \<and> [] \<noteq> ascii ''Hola'' \<and> [] \<noteq> ascii ''Error in translation service''
   \<and> [] \<noteq> ascii ''Translation failed''"
  by (simp add: translateText_def trim_def ascii_def js_whitespace_def)

text \<open>
  C9, amended. For every input text and target language \<open>translateText\<close> never throws. On
  a text that is empty once trimmed it returns the empty string, whatever the backend
  is. Otherwise it returns the fixed string \<open>'Error in translation service'\<close> when the
  backend call fails, the fixed string \<open>'Translation failed'\<close> when the backend returns no
  text or only white space, and the backend's text, trimmed, in every other case.
\<close>

theorem C9_translateText:
  "(\<exists>r. translateText g text lang mdl = Inr r)
   \<and> (trim text = [] \<longrightarrow> translateText g text lang mdl = Inr [])
   \<and> (trim text \<noteq> [] \<longrightarrow>
        (g mdl (prompt lang text) = Rejected \<longrightarrow>
           translateText g text lang mdl = Inr (ascii ''Error in translation service''))
        \<and> (g mdl (prompt lang text) = Response None \<longrightarrow>
           translateText g text lang mdl = Inr (ascii ''Translation failed''))
        \<and> (\<forall>t. g mdl (prompt lang text) = Response (Some t) \<longrightarrow>
           translateText g text lang mdl
             = Inr (if trim t = [] then ascii ''Translation failed'' else trim t)))"
  by (simp add: translateText_def split: backend_outcome.split option.split)

lemma trim_hej: "trim (ascii ''hej'') = ascii ''hej''"
  by (simp add: trim_def ascii_def js_whitespace_def)

lemma trim_Hello: "trim (ascii '' Hello '') = ascii ''Hello''"
  by (simp add: trim_def ascii_def js_whitespace_def)

lemma trim_blank: "trim (ascii ''  '') = []"
  by (simp add: trim_def ascii_def js_whitespace_def)

theorem C9_translateText_witness:
  "trim (ascii ''  '') = []
   \<and> translateText (\<lambda>m c. Rejected) (ascii ''  '') (ascii ''English'') (ascii ''m'') = Inr []
   \<and> trim (ascii ''hej'') \<noteq> []
   \<and> translateText (\<lambda>m c. Rejected) (ascii ''hej'') (ascii ''English'') (ascii ''m'')
       = Inr (ascii ''Error in translation service'')
   \<and> translateText (\<lambda>m c. Response None) (ascii ''hej'') (ascii ''English'') (ascii ''m'')
       = Inr (ascii ''Translation failed'')
   \<and> translateText (\<lambda>m c. Response (Some (ascii '' Hello ''))) (ascii ''hej'') (ascii ''English'')
       (ascii ''m'') = Inr (ascii ''Hello'')"
proof -
  have nb: "trim (ascii ''hej'') \<noteq> []" by (simp only: trim_hej) (simp add: ascii_def)
  note a = C9_translateText [of "\<lambda>m c. Rejected" "ascii ''  ''" "ascii ''English''" "ascii ''m''"]
  note b = C9_translateText [of "\<lambda>m c. Rejected" "ascii ''hej''" "ascii ''English''" "ascii ''m''"]
  note c = C9_translateText [of "\<lambda>m c. Response None" "ascii ''hej''" "ascii ''English''" "ascii ''m''"]
  note d = C9_translateText [of "\<lambda>m c. Response (Some (ascii '' Hello ''))" "ascii ''hej''"
      "ascii ''English''" "ascii ''m''"]
  have "translateText (\<lambda>m c. Rejected) (ascii ''  '') (ascii ''English'') (ascii ''m'') = Inr []"
    using a trim_blank by blast
  moreover have "translateText (\<lambda>m c. Rejected) (ascii ''hej'') (ascii ''English'') (ascii ''m'')
       = Inr (ascii ''Error in translation service'')"
    using b nb by blast
  moreover have "translateText (\<lambda>m c. Response None) (ascii ''hej'') (ascii ''English'') (ascii ''m'')
       = Inr (ascii ''Translation failed'')"
    using c nb by blast
  moreover have "translateText (\<lambda>m c. Response (Some (ascii '' Hello ''))) (ascii ''hej'')
       (ascii ''English'') (ascii ''m'') = Inr (ascii ''Hello'')"
  proof -
    have "translateText (\<lambda>m c. Response (Some (ascii '' Hello ''))) (ascii ''hej'')
       (ascii ''English'') (ascii ''m'')
        = Inr (if trim (ascii '' Hello '') = [] then ascii ''Translation failed''
               else trim (ascii '' Hello ''))"
      using d nb by blast
    then show ?thesis by (simp only: trim_Hello) (simp add: ascii_def)
  qed
  ultimately show ?thesis using nb trim_blank by simp
qed

section \<open>Facts about the handler\<close>

lemma duration_nonneg: "0 \<le> duration b"
  by (simp add: duration_def split: list.split)

lemma scheduled_append: "scheduled (fx @ fx') = scheduled fx @ scheduled fx'"
  by (induction fx rule: scheduled.induct) simp_all

lemma transcription_block_refs:
  "nextStartTimeRef (transcription_block m s) = nextStartTimeRef s"
  "sourcesRef (transcription_block m s) = sourcesRef s"
  "outputAudioContextRef (transcription_block m s) = outputAudioContextRef s"
  "history (transcription_block m s) = history s"
  by (simp_all add: transcription_block_def Let_def split: option.split)

lemma audio_block_cases:
  assumes "audio_block tk m s = (fx, err, s1)"
  shows "(fx = [] \<and> sourcesRef s1 = sourcesRef s \<and> history s1 = history s
            \<and> nextStartTimeRef s \<le> nextStartTimeRef s1)
         \<or> (\<exists>d. 0 \<le> d \<and> err = None
               \<and> fx = [StartSource (newSource tk) (max (nextStartTimeRef s) (currentTime tk)) d]
               \<and> nextStartTimeRef s1 = max (nextStartTimeRef s) (currentTime tk) + d
               \<and> sourcesRef s1 = set_add (newSource tk) (sourcesRef s)
               \<and> history s1 = history s)"
  using assms
  by (auto simp: audio_block_def Let_def duration_nonneg
      split: sum.splits option.splits if_splits)

lemma onmessage_step:
  assumes "onmessage cl tk m s = (fx, err, s1)" "\<not> is_interrupted m"
  shows "nextStartTimeRef s \<le> nextStartTimeRef s1
         \<and> (scheduled fx = []
              \<or> (\<exists>d. 0 \<le> d
                    \<and> scheduled fx = [(max (nextStartTimeRef s) (currentTime tk), d)]
                    \<and> nextStartTimeRef s1 = max (nextStartTimeRef s) (currentTime tk) + d))"
proof -
  obtain fx0 err0 s0 where a: "audio_block tk m (transcription_block m s) = (fx0, err0, s0)"
    by (metis prod_cases3)
  from audio_block_cases [OF a] assms a show ?thesis
    by (auto simp: onmessage_def interrupted_block_def turnComplete_block_def
        transcription_block_refs split: option.splits if_splits)
qed

lemma onmessage_interrupted_state:
  assumes "is_interrupted m" "onmessage cl tk m s = (fx, None, s')"
  shows "sourcesRef s' = [] \<and> nextStartTimeRef s' = 0"
  using assms
  by (auto simp: onmessage_def interrupted_block_def split: prod.splits option.splits)

lemma onmessage_start_time:
  assumes "StartSource h t d \<in> set (fst (onmessage cl tk m s))"
  shows "t = max (nextStartTimeRef s) (currentTime tk)"
proof -
  obtain fx0 err0 s0 where a: "audio_block tk m (transcription_block m s) = (fx0, err0, s0)"
    by (metis prod_cases3)
  from audio_block_cases [OF a] assms a show ?thesis
    by (auto simp: onmessage_def interrupted_block_def turnComplete_block_def
        transcription_block_refs split: option.splits if_splits)
qed

lemma decode_chunk: "decode ''AEAAgA=='' = Inr [0, 64, 0, 128]"
  by code_simp

lemma decodeAudioData_chunk:
  "decodeAudioData (fresh [0, 64, 0, 128]) 24000 1
     = Inr \<lparr>channelData = [[1 / 2, - 1]], sampleRate = 24000\<rparr>"
  by (simp add: decodeAudioData_def createBuffer_def fresh_def Let_def upt_rec)

lemma duration_chunk: "duration \<lparr>channelData = [[1 / 2, - 1]], sampleRate = 24000\<rparr> = 1 / 12000"
  by (simp add: duration_def)

lemmas eval_onmessage =
  onmessage_def transcription_block_def audio_block_def audioData_def turnComplete_block_def
  interrupted_block_def is_turnComplete_def is_interrupted_def new_history_item_def
  quiet_content_def audio_content_def initial_app_def playing_app_def render_def set_add_def
  or_prev_def Let_def decode_chunk decodeAudioData_chunk [unfolded One_nat_def] duration_chunk

section \<open>History\<close>

text \<open>
  C1. A history entry is appended if and only if a turn-complete event is processed while
  both the transcript and the translation of the turn are non-empty; a turn-complete with
  empty text appends no entry. The first revision breaks this: its handler appends on
  every turn-complete. Here it receives a turn-complete as the first message of a session,
  transcript and translation both empty, and the history gains an entry with two empty
  texts.
\<close>

theorem C1_unguarded_appends_empty_entry:
  "c_transcript (render initial_app) = [] \<and> c_translation (render initial_app) = []
   \<and> transcript initial_app = [] \<and> translation initial_app = []
   \<and> onmessage (render initial_app) \<lparr>currentTime = 0, date = 1, newSource = 0\<rparr>
        (Some (quiet_content\<lparr>turnComplete := True\<rparr>)) initial_app
      = ([], None,
         initial_app\<lparr>status := Lytter,
           history := [\<lparr>timestamp = 1, originalText = [], translatedText = [],
                        sourceLangLabel = AutoLabel, targetLangLabel = LanguageName English\<rparr>]\<rparr>)"
  by (simp add: eval_onmessage)

text \<open>
  The two revisions side by side: the first appends on every turn-complete, the third
  when both texts of its closure are non-empty.
\<close>

lemma turnComplete_block_history:
  "history (turnComplete_block cl tk m s) =
     (if is_turnComplete m then new_history_item cl tk # history s else history s)"
  by (simp add: turnComplete_block_def)

lemma turnComplete_block_guarded_history:
  "history (turnComplete_block_guarded cl tk m s) =
     (if is_turnComplete m \<and> c_transcript cl \<noteq> [] \<and> c_translation cl \<noteq> []
      then new_history_item cl tk # history s else history s)"
  by (simp add: turnComplete_block_guarded_def Let_def)

text \<open>
  The texts of an entry are those of the closure, that is of the render in which
  \<open>startSession\<close> was called: in a first session \<open>Hello\<close> and \<open>Hola\<close> reach the display and
  not the history.
\<close>

lemma first_session_entry_is_empty:
  "run (render initial_app)
     [Message \<lparr>currentTime = 0, date = 2, newSource = 0\<rparr>
        (Some (quiet_content\<lparr>inputTranscription := Some (Some ''Hello'')\<rparr>)),
      Message \<lparr>currentTime = 0, date = 3, newSource = 0\<rparr>
        (Some (quiet_content\<lparr>outputTranscription := Some (Some ''Hola'')\<rparr>)),
      Message \<lparr>currentTime = 0, date = 4, newSource = 0\<rparr>
        (Some (quiet_content\<lparr>turnComplete := True\<rparr>))] initial_app
   = ([], initial_app\<lparr>status := Lytter, transcript := ''Hello'', translation := ''Hola'',
        history := [\<lparr>timestamp = 4, originalText = [], translatedText = [],
                     sourceLangLabel = AutoLabel, targetLangLabel = LanguageName English\<rparr>]\<rparr>)"
  by (simp add: eval_onmessage)

section \<open>A start that fails\<close>

text \<open>
  C2 as it stands fails: when \<open>getUserMedia\<close> rejects, the status is \<open>Error\<close> and no stream
  was obtained, but both audio contexts were created, neither is closed, and both refs
  still hold them.
\<close>

theorem C2_contexts_stay_open:
  "startSession \<lparr>newInputCtx = 1, newOutputCtx = 2, getUserMedia = Inl NotAllowedError,
                  connect = Inr 3\<rparr> initial_app
   = ([NewAudioContext 1 16000, NewAudioContext 2 24000, ConsoleError],
      initial_app\<lparr>status := Error, inputAudioContextRef := Some 1,
                   outputAudioContextRef := Some 2\<rparr>)
   \<and> context_open [NewAudioContext 1 16000, NewAudioContext 2 24000, ConsoleError] 1
   \<and> context_open [NewAudioContext 1 16000, NewAudioContext 2 24000, ConsoleError] 2"
  by (simp add: startSession_def initial_app_def context_open_def Let_def)

text \<open>
  C2, amended. If \<open>startSession\<close> fails during the connecting phase, after the input and
  output audio contexts have been created, then afterwards the exposed status equals
  \<open>Error\<close>, and the output audio context is kept: the ref holds it and nothing has closed
  it. If the failure is that of \<open>getUserMedia\<close>, no microphone stream has been opened.
\<close>

theorem C2_failed_start:
  assumes "startSession pf s = (fx, s')" "isl (getUserMedia pf) \<or> isl (connect pf)"
  shows "status s' = Error
         \<and> outputAudioContextRef s' = Some (newOutputCtx pf)
         \<and> context_open fx (newOutputCtx pf)
         \<and> (isl (getUserMedia pf) \<longrightarrow> stream s' = stream s \<and> filter is_AcquireStream fx = [])"
proof (cases "getUserMedia pf")
  case (Inl e)
  with assms(1) show ?thesis
    by (auto simp: startSession_def context_open_def Let_def)
next
  case (Inr mediaStream)
  with assms(2) obtain e where "connect pf = Inl e" by (cases "connect pf") auto
  with Inr assms(1) show ?thesis
    by (auto simp: startSession_def context_open_def Let_def)
qed

theorem C2_failed_start_witness:
  "isl (getUserMedia \<lparr>newInputCtx = 1, newOutputCtx = 2, getUserMedia = Inl NotAllowedError,
                       connect = Inr 3\<rparr>)
   \<and> status (initial_app\<lparr>status := Error, inputAudioContextRef := Some 1,
                          outputAudioContextRef := Some 2\<rparr>) = Error
   \<and> context_open [NewAudioContext 1 16000, NewAudioContext 2 24000, ConsoleError] 2
   \<and> filter is_AcquireStream [NewAudioContext 1 16000, NewAudioContext 2 24000, ConsoleError] = []"
proof -
  let ?pf = "\<lparr>newInputCtx = 1, newOutputCtx = 2, getUserMedia = Inl NotAllowedError,
               connect = Inr 3\<rparr>"
  have started: "startSession ?pf initial_app
      = ([NewAudioContext 1 16000, NewAudioContext 2 24000, ConsoleError],
         initial_app\<lparr>status := Error, inputAudioContextRef := Some 1,
                      outputAudioContextRef := Some 2\<rparr>)"
    by (simp add: startSession_def initial_app_def Let_def)
  have failed: "isl (getUserMedia ?pf) \<or> isl (connect ?pf)" by simp
  from C2_failed_start [OF started failed] show ?thesis by simp
qed

text \<open>The sibling path: \<open>onerror\<close> does release the session and the input context.\<close>

lemma onerror_releases:
  "sessionRef (snd (onerror cl s)) = None \<and> inputAudioContextRef (snd (onerror cl s)) = None
   \<and> status (snd (onerror cl s)) = Klar"
  by (simp add: onerror_def stopSession_def Let_def split: option.split prod.split)

section \<open>Interruption\<close>

text \<open>
  C3 as it stands fails: with two sources playing, the anchor at \<open>10\<close> and the output clock
  at \<open>5\<close>, an interrupted event stops both sources, empties the set and leaves the anchor at
  \<open>0\<close>, which is not the reading of the clock.
\<close>

theorem C3_anchor_reset_to_zero:
  "onmessage (render playing_app) \<lparr>currentTime = 5, date = 1, newSource = 9\<rparr>
     (Some (quiet_content\<lparr>interrupted := True\<rparr>)) playing_app
   = ([StopSource 7, StopSource 8], None,
      playing_app\<lparr>nextStartTimeRef := 0, sourcesRef := []\<rparr>)
   \<and> nextStartTimeRef (playing_app\<lparr>nextStartTimeRef := 0, sourcesRef := []\<rparr>)
       \<noteq> currentTime \<lparr>currentTime = 5, date = 1, newSource = 9\<rparr>"
  by (simp add: eval_onmessage)

text \<open>
  C3, amended. On processing an interrupted event, the scheduler stops every currently
  active playback source, clears the active set, and resets the playback anchor
  \<open>nextStartTimeRef\<close> to zero.
\<close>

theorem C3_interrupted:
  assumes "is_interrupted m" "onmessage cl tk m s = (fx, None, s')"
  shows "(\<forall>h\<in>set (sourcesRef s). StopSource h \<in> set fx)
         \<and> sourcesRef s' = [] \<and> nextStartTimeRef s' = 0"
proof -
  obtain fx0 err0 s0 where a: "audio_block tk m (transcription_block m s) = (fx0, err0, s0)"
    by (metis prod_cases3)
  have keep: "set (sourcesRef s) \<subseteq> set (sourcesRef s0)"
    using audio_block_cases [OF a] by (auto simp: transcription_block_refs set_add_def)
  from assms a have "fx = fx0 @ map StopSource (sourcesRef s0)"
    by (auto simp: onmessage_def interrupted_block_def turnComplete_block_def
        split: option.splits if_splits)
  with keep have "\<forall>h\<in>set (sourcesRef s). StopSource h \<in> set fx" by auto
  with onmessage_interrupted_state [OF assms] show ?thesis by simp
qed

theorem C3_interrupted_witness:
  "is_interrupted (Some (quiet_content\<lparr>interrupted := True\<rparr>))
   \<and> sourcesRef playing_app = [7, 8]
   \<and> StopSource 7 \<in> set [StopSource 7, StopSource 8]
   \<and> StopSource 8 \<in> set [StopSource 7, StopSource 8]
   \<and> sourcesRef (playing_app\<lparr>nextStartTimeRef := 0, sourcesRef := []\<rparr>) = []
   \<and> nextStartTimeRef (playing_app\<lparr>nextStartTimeRef := 0, sourcesRef := []\<rparr>) = 0"
proof -
  have i: "is_interrupted (Some (quiet_content\<lparr>interrupted := True\<rparr>))"
    by (simp add: is_interrupted_def)
  have r: "onmessage (render playing_app) \<lparr>currentTime = 5, date = 1, newSource = 9\<rparr>
     (Some (quiet_content\<lparr>interrupted := True\<rparr>)) playing_app
   = ([StopSource 7, StopSource 8], None, playing_app\<lparr>nextStartTimeRef := 0, sourcesRef := []\<rparr>)"
    by (simp add: eval_onmessage)
  from C3_interrupted [OF i r] i show ?thesis by (simp add: playing_app_def initial_app_def)
qed

text \<open>
  C4. After an interrupted event is processed, the active playback set is empty, and the
  start time computed for the next enqueued audio buffer is greater than or equal to the
  output clock's current time at the moment of scheduling, never in the past. The clock is
  the reading \<open>currentTime\<close> of the run of the handler that schedules. Whatever events
  come between the interrupt and that run, the start is not before the reading; when none
  comes between, the start is the greater of zero and the reading, and the clock of an
  audio context is never negative.
\<close>

theorem C4_after_interrupt:
  assumes "is_interrupted m" "onmessage cl tk m s = (fx, None, s1)"
    and "run cl evs s1 = (fx', s2)"
    and "StartSource h t d \<in> set (fst (onmessage cl tk' m' s2))"
  shows "sourcesRef s1 = [] \<and> currentTime tk' \<le> t
         \<and> (evs = [] \<longrightarrow> t = max 0 (currentTime tk'))"
proof -
  from onmessage_interrupted_state [OF assms(1,2)]
  have empty: "sourcesRef s1 = []" and zero: "nextStartTimeRef s1 = 0" by simp_all
  have start: "t = max (nextStartTimeRef s2) (currentTime tk')"
    using assms(4) by (rule onmessage_start_time)
  have "t = max 0 (currentTime tk')" if "evs = []"
  proof -
    from that assms(3) have "s2 = s1" by simp
    with start zero show ?thesis by simp
  qed
  with empty start show ?thesis by simp
qed

theorem C4_after_interrupt_witness:
  "is_interrupted (Some (quiet_content\<lparr>interrupted := True\<rparr>))
   \<and> StartSource 9 6 (1 / 12000) \<in> set (fst (onmessage (render playing_app)
         \<lparr>currentTime = 6, date = 2, newSource = 9\<rparr> (Some audio_content)
         (playing_app\<lparr>nextStartTimeRef := 0, sourcesRef := []\<rparr>)))
   \<and> sourcesRef (playing_app\<lparr>nextStartTimeRef := 0, sourcesRef := []\<rparr>) = []
   \<and> currentTime \<lparr>currentTime = 6, date = 2, newSource = 9\<rparr> \<le> (6 :: real)
   \<and> (6 :: real) = max 0 (currentTime \<lparr>currentTime = 6, date = 2, newSource = 9\<rparr>)"
proof -
  let ?s1 = "playing_app\<lparr>nextStartTimeRef := 0, sourcesRef := []\<rparr>"
  have i: "is_interrupted (Some (quiet_content\<lparr>interrupted := True\<rparr>))"
    by (simp add: is_interrupted_def)
  have r: "onmessage (render playing_app) \<lparr>currentTime = 5, date = 1, newSource = 9\<rparr>
     (Some (quiet_content\<lparr>interrupted := True\<rparr>)) playing_app
   = ([StopSource 7, StopSource 8], None, ?s1)"
    by (simp add: eval_onmessage)
  have e: "run (render playing_app) [] ?s1 = ([], ?s1)" by simp
  have n: "StartSource 9 6 (1 / 12000) \<in> set (fst (onmessage (render playing_app)
         \<lparr>currentTime = 6, date = 2, newSource = 9\<rparr> (Some audio_content) ?s1))"
    by (simp add: eval_onmessage)
  from C4_after_interrupt [OF i r e n] i n show ?thesis by simp
qed

section \<open>Scheduling\<close>

lemma run_schedule:
  assumes "\<forall>e\<in>set evs. \<not> is_interrupt e" "run cl evs s = (fx, s')"
  shows "sorted_wrt before (scheduled fx)
         \<and> (\<forall>p\<in>set (scheduled fx). nextStartTimeRef s \<le> fst p
               \<and> fst p + snd p \<le> nextStartTimeRef s' \<and> 0 \<le> snd p)
         \<and> nextStartTimeRef s \<le> nextStartTimeRef s'"
  using assms
proof (induction cl evs s arbitrary: fx s' rule: run.induct)
  case (1 cl s)
  then show ?case by simp
next
  case (2 cl tk m evs s)
  obtain fx1 err s1 where step: "onmessage cl tk m s = (fx1, err, s1)"
    by (metis prod_cases3)
  obtain fx2 s2 where rest: "run cl evs s1 = (fx2, s2)"
    by (metis surj_pair)
  from "2.prems" step rest have fx: "fx = fx1 @ fx2" and s': "s' = s2" by simp_all
  have quiet: "\<not> is_interrupted m" and quiet': "\<forall>e\<in>set evs. \<not> is_interrupt e"
    using "2.prems"(1) by simp_all
  note one = onmessage_step [OF step quiet]
  have ih: "sorted_wrt before (scheduled fx2)
         \<and> (\<forall>p\<in>set (scheduled fx2). nextStartTimeRef s1 \<le> fst p
               \<and> fst p + snd p \<le> nextStartTimeRef s2 \<and> 0 \<le> snd p)
         \<and> nextStartTimeRef s1 \<le> nextStartTimeRef s2"
    using "2.IH" [OF step [symmetric] refl quiet' rest] .
  from one ih show ?case
    unfolding fx s' scheduled_append sorted_wrt_append before_def
    by (auto; linarith)
next
  case (3 cl source evs s)
  then show ?case by (simp add: onended_def)
qed

text \<open>
  C5. For every sequence of audio buffers enqueued by the handler with no intervening
  interrupt, whatever other messages and end-of-playback events come between them and
  whatever the clock reads, the scheduled start times are non-decreasing and each
  buffer's start time is at least the start time plus the duration of every buffer
  enqueued before it: no two scheduled playback ranges overlap.
\<close>

theorem C5_no_overlap:
  assumes "\<forall>e\<in>set evs. \<not> is_interrupt e"
  shows "sorted_wrt before (scheduled (fst (run cl evs s)))"
proof -
  obtain fx s' where r: "run cl evs s = (fx, s')" by (metis surj_pair)
  from run_schedule [OF assms r] have "sorted_wrt before (scheduled fx)" by simp
  with r show ?thesis by simp
qed

lemma two_chunks:
  "run (render playing_app)
     [Message \<lparr>currentTime = 5, date = 1, newSource = 9\<rparr> (Some audio_content),
      Ended 7,
      Message \<lparr>currentTime = 5, date = 2, newSource = 11\<rparr> (Some audio_content)]
     playing_app
   = ([StartSource 9 10 (1 / 12000), StartSource 11 (120001 / 12000) (1 / 12000)],
      playing_app\<lparr>status := Taler, nextStartTimeRef := 60001 / 6000, sourcesRef := [8, 9, 11]\<rparr>)"
  by (simp add: eval_onmessage onended_def)

theorem C5_no_overlap_witness:
  "\<not> is_interrupt (Message \<lparr>currentTime = 5, date = 1, newSource = 9\<rparr> (Some audio_content))
   \<and> \<not> is_interrupt (Ended 7)
   \<and> sorted_wrt before [(10, 1 / 12000), (120001 / 12000, 1 / 12000)]"
proof -
  let ?evs = "[Message \<lparr>currentTime = 5, date = 1, newSource = 9\<rparr> (Some audio_content),
      Ended 7,
      Message \<lparr>currentTime = 5, date = 2, newSource = 11\<rparr> (Some audio_content)]"
  have quiet: "\<forall>e\<in>set ?evs. \<not> is_interrupt e"
    by (simp add: is_interrupted_def audio_content_def quiet_content_def)
  have "sorted_wrt before (scheduled (fst (run (render playing_app) ?evs playing_app)))"
    using quiet by (rule C5_no_overlap)
  then have "sorted_wrt before [(10, 1 / 12000), (120001 / 12000, 1 / 12000)]"
    by (simp only: two_chunks fst_conv scheduled.simps)
  with quiet show ?thesis by simp
qed

section \<open>Cleanup\<close>

text \<open>
  What holds of two calls in a row. Through the \<open>stopSession\<close> of the current render, as
  the button calls it, the second call does nothing. The two refs are live whatever the
  closure: no second call closes a session or a context. Through one and the same
  closure the second call leaves the state as it is, and stops the tracks of the stream
  the closure holds once more.
\<close>

lemma stopSession_twice:
  "stopSession (render (snd (stopSession (render s) s))) (snd (stopSession (render s) s))
     = ([], snd (stopSession (render s) s))
   \<and> filter (\<lambda>e. \<not> is_StopTracks e) (fst (stopSession cl' (snd (stopSession cl s)))) = []
   \<and> snd (stopSession cl (snd (stopSession cl s))) = snd (stopSession cl s)"
  by (simp add: stopSession_def render_def Let_def split: option.split)

lemma stopSession_again:
  "fst (stopSession cl (snd (stopSession cl s)))
     = (case c_stream cl of None \<Rightarrow> [] | Some m \<Rightarrow> [StopTracks m])"
  by (simp add: stopSession_def Let_def split: option.split)

lemma stopSession_open_app:
  "stopSession (render open_app) open_app
     = ([CloseSession 3, StopTracks 4, CloseAudioContext 1],
        initial_app\<lparr>outputAudioContextRef := Some 2\<rparr>)
   \<and> stopSession (render open_app) (initial_app\<lparr>outputAudioContextRef := Some 2\<rparr>)
     = ([StopTracks 4], initial_app\<lparr>outputAudioContextRef := Some 2\<rparr>)"
  by (simp add: stopSession_def render_def open_app_def initial_app_def Let_def)

lemma after_first_close_eq:
  "after_first_close = initial_app\<lparr>stream := Some 4, outputAudioContextRef := Some 2\<rparr>"
  by (simp add: after_first_close_def onclose_def stopSession_def startSession_def
      first_platform_def render_def initial_app_def Let_def)

lemma second_session_eq:
  "second_session = initial_app\<lparr>status := Lytter, stream := Some 8, sessionRef := Some 7,
     inputAudioContextRef := Some 5, outputAudioContextRef := Some 6\<rparr>"
  by (simp add: second_session_def after_first_close_eq startSession_def second_platform_def
      initial_app_def Let_def)

text \<open>
  C8. Calling \<open>stopSession\<close> twice in a row produces no error and no double release: the
  second call finds the session handle, the media stream and the input audio context
  already null and performs no release action on them, leaving the state identical to
  after the first call. The code breaks this for the media stream. \<open>stream\<close> is a constant
  of the closure, so \<open>setStream(null)\<close> does not reach a second call through the same
  \<open>stopSession\<close>, and \<open>onerror\<close> followed by \<open>onclose\<close> is two such calls. Here the first
  session was closed by the server, which left the stream \<open>4\<close> in the state; the second
  session was started in that render; its \<open>onerror\<close> stops the tracks of \<open>4\<close>, and its
  \<open>onclose\<close> stops them again.
\<close>

theorem C8_second_call_stops_tracks_again:
  "c_stream (render after_first_close) = Some 4
   \<and> onerror (render after_first_close) second_session
       = ([ConsoleError, CloseSession 7, StopTracks 4, CloseAudioContext 5],
          initial_app\<lparr>outputAudioContextRef := Some 6\<rparr>)
   \<and> onclose (render after_first_close) (initial_app\<lparr>outputAudioContextRef := Some 6\<rparr>)
       = ([StopTracks 4], initial_app\<lparr>outputAudioContextRef := Some 6\<rparr>)"
  by (simp add: after_first_close_eq second_session_eq onerror_def onclose_def stopSession_def
      render_def initial_app_def Let_def)

end
